theory Spec2Isabelle
  imports Complex_Main "HOL-Library.Product_Lexorder" "HOL-Library.Multiset"
begin

section \<open>Natural gas storage contract pricing: the model of forecasting.py\<close>

text \<open>
  The embedding follows \<^verbatim>\<open>src/forecasting.py\<close> (whose \<^verbatim>\<open>estimate_price\<close> is the same
  text as the one of \<^verbatim>\<open>src/storage_contract.py\<close>). Python numbers are exact reals here:
  rounding of binary floating point, NaN and infinities are outside the model, and so
  are \<^verbatim>\<open>NaT\<close>, timezone-aware timestamps and a cost schedule with a missing entry. Every
  \<^verbatim>\<open>raise\<close> of the source is a value \<open>Inl e\<close>; the source raises \<^verbatim>\<open>ValueError\<close> with a
  different message at each place, and the constructors of \<open>error\<close> name the places after
  the error kinds of the specification.
\<close>

subsection \<open>Timestamps\<close>

text \<open>
  A pandas \<^verbatim>\<open>Timestamp\<close> (timezone-naive): the calendar fields the source reads
  (\<^verbatim>\<open>.year\<close>, \<^verbatim>\<open>.month\<close>, \<^verbatim>\<open>.dayofyear\<close>) and the time of day in nanoseconds. Timestamps
  compare chronologically, which is the lexicographic order of \<open>ts_key\<close>.
\<close>

record timestamp =
  year :: int
  month :: int
  day :: int
  time_of_day :: nat


definition is_leap_year :: "int \<Rightarrow> bool" where
  "is_leap_year y = (y mod 4 = 0 \<and> (y mod 100 \<noteq> 0 \<or> y mod 400 = 0))"

definition days_before_month :: "int \<Rightarrow> int" where
  "days_before_month m =
     (if m = 1 then 0 else if m = 2 then 31 else if m = 3 then 59 else if m = 4 then 90
      else if m = 5 then 120 else if m = 6 then 151 else if m = 7 then 181
      else if m = 8 then 212 else if m = 9 then 243 else if m = 10 then 273
      else if m = 11 then 304 else 334)"

definition dayofyear :: "timestamp \<Rightarrow> int" where
  "dayofyear t =
     days_before_month (month t) + day t
       + (if is_leap_year (year t) \<and> 2 < month t then 1 else 0)"





subsection \<open>Errors, events and the external collaborators\<close>

datatype error =
    MismatchedLengthError       \<comment> \<open>lines 95-99\<close>
  | EmptyScheduleError          \<comment> \<open>line 101\<close>
  | InvalidDateError            \<comment> \<open>lines 105-109\<close>
  | NonPositiveVolumeError      \<comment> \<open>lines 112-118\<close>
  | VolumeMismatchError         \<comment> \<open>line 124\<close>
  | CapacityExceededError       \<comment> \<open>line 156\<close>
  | InsufficientStorageError    \<comment> \<open>line 160\<close>
  | InvalidScheduleOrderError   \<comment> \<open>line 217\<close>
  | FileNotFoundError           \<comment> \<open>line 11\<close>
  | DateParseError              \<comment> \<open>\<^verbatim>\<open>pd.to_datetime\<close> raising outside the \<^verbatim>\<open>try\<close> of line 105\<close>
  | InvalidInputError           \<comment> \<open>a failing \<^verbatim>\<open>LinearRegression.fit\<close>\<close>
  | EmptySequenceError          \<comment> \<open>\<^verbatim>\<open>iloc[-1]\<close>, \<^verbatim>\<open>min\<close> or \<^verbatim>\<open>max\<close> of an empty sequence\<close>


record linear_model =
  coef :: "real list"
  intercept :: real

text \<open>
  The library functions the source calls are parameters of the model:
  \<^verbatim>\<open>pd.to_datetime\<close> on a date string (\<open>None\<close> when it raises), the price file as
  \<^verbatim>\<open>pd.read_csv\<close> returns it, a list of (date string, price) rows (\<open>None\<close> when the file
  does not exist), and \<^verbatim>\<open>LinearRegression().fit\<close> on a design matrix and a target
  column (\<open>None\<close> when it raises).
\<close>

record env =
  to_datetime :: "string \<Rightarrow> timestamp option"
  read_csv :: "string \<Rightarrow> (string \<times> real) list option"
  linreg_fit :: "real list list \<Rightarrow> real list \<Rightarrow> linear_model option"

text \<open>Modelled from the spec: \<^verbatim>\<open>LinearRegression.predict\<close> on one feature row,
  which is code of scikit-learn; the specification gives it as
  \<^verbatim>\<open>price = dot(coefficients, features) + intercept\<close>.\<close>

definition predict :: "linear_model \<Rightarrow> real list \<Rightarrow> real" where
  "predict m x = sum_list (map2 (*) (coef m) x) + intercept m"

fun parse_all :: "env \<Rightarrow> string list \<Rightarrow> timestamp list option" where
  "parse_all e [] = Some []"
| "parse_all e (s # ss) =
     (case to_datetime e s of
        None \<Rightarrow> None
      | Some t \<Rightarrow> (case parse_all e ss of None \<Rightarrow> None | Some ts \<Rightarrow> Some (t # ts)))"

subsection \<open>The price estimator\<close>

record price_row =
  Dates :: timestamp
  Prices :: real
  Month :: int
  Year :: int
  DayOfYear :: int
  TimeIndex :: int

definition load_price_data :: "env \<Rightarrow> string \<Rightarrow> error + price_row list" where
  "load_price_data e csv_file =
     (case read_csv e csv_file of
        None \<Rightarrow> Inl FileNotFoundError
      | Some rows \<Rightarrow>
          (case parse_all e (map fst rows) of
             None \<Rightarrow> Inl DateParseError
           | Some ds \<Rightarrow>
               Inr (map (\<lambda>(i, (d, p)).
                      \<lparr>Dates = d, Prices = p, Month = month d, Year = year d,
                       DayOfYear = dayofyear d, TimeIndex = int i\<rparr>)
                    (enumerate 0 (zip ds (map snd rows))))))"

definition design_row :: "price_row \<Rightarrow> real list" where
  "design_row r =
     [real_of_int (TimeIndex r),
      sin (2 * pi * real_of_int (DayOfYear r) / 365.25),
      cos (2 * pi * real_of_int (DayOfYear r) / 365.25),
      sin (4 * pi * real_of_int (DayOfYear r) / 365.25),
      cos (4 * pi * real_of_int (DayOfYear r) / 365.25),
      real_of_int (Month r)]"

definition build_price_model :: "env \<Rightarrow> price_row list \<Rightarrow> error + linear_model" where
  "build_price_model e df =
     (case linreg_fit e (map design_row df) (map Prices df) of
        None \<Rightarrow> Inl InvalidInputError
      | Some m \<Rightarrow> Inr m)"

definition estimate_price ::
  "env \<Rightarrow> string \<Rightarrow> linear_model \<Rightarrow> timestamp \<Rightarrow> int \<Rightarrow> error + real" where
  "estimate_price e date_str model reference_date last_time_index =
     (case to_datetime e date_str of
        None \<Rightarrow> Inl DateParseError
      | Some target_date \<Rightarrow>
          (let months_diff = (year target_date - year reference_date) * 12
                               + (month target_date - month reference_date);
               time_index = last_time_index + months_diff;
               day_of_year = dayofyear target_date;
               mon = month target_date;
               features =
                 [real_of_int time_index,
                  sin (2 * pi * real_of_int day_of_year / 365.25),
                  cos (2 * pi * real_of_int day_of_year / 365.25),
                  sin (4 * pi * real_of_int day_of_year / 365.25),
                  cos (4 * pi * real_of_int day_of_year / 365.25),
                  real_of_int mon];
               price = predict model features
           in Inr (max 0 price)))"

text \<open>Lines 163-167: the data, the model, and the reference point of the trend.\<close>

definition load_model :: "env \<Rightarrow> string \<Rightarrow> error + (linear_model \<times> timestamp \<times> int)" where
  "load_model e csv_file =
     (case load_price_data e csv_file of
        Inl err \<Rightarrow> Inl err
      | Inr price_df \<Rightarrow>
          (case build_price_model e price_df of
             Inl err \<Rightarrow> Inl err
           | Inr price_model \<Rightarrow>
               (if price_df = [] then Inl EmptySequenceError
                else Inr (price_model, Dates (last price_df), TimeIndex (last price_df)))))"

subsection \<open>The contract valuator\<close>






















subsection \<open>The specification's feature vector, and a sample environment\<close>

text \<open>The feature vector as section 4.1 of the specification words it: time index,
  two harmonics of the day of the year, and the bare month.\<close>

definition spec_features :: "int \<Rightarrow> int \<Rightarrow> int \<Rightarrow> real list" where
  "spec_features t d m =
     [real_of_int t,
      sin (2 * pi * real_of_int d / 365.25), cos (2 * pi * real_of_int d / 365.25),
      sin (4 * pi * real_of_int d / 365.25), cos (4 * pi * real_of_int d / 365.25),
      real_of_int m]"

definition mk_date :: "int \<Rightarrow> int \<Rightarrow> int \<Rightarrow> timestamp" where
  "mk_date y m d = \<lparr>year = y, month = m, day = d, time_of_day = 0\<rparr>"

text \<open>A small environment on which the definitions can be run: a date parser that
  knows a few ISO dates, one price file of three month-end rows, and a fit that returns
  a fixed trend line.\<close>

definition sample_env :: env where
  "sample_env =
     \<lparr>to_datetime = map_of
        [(''2024-06-01'', mk_date 2024 6 1), (''2024-09-01'', mk_date 2024 9 1),
         (''2024-06-15'', mk_date 2024 6 15), (''2024-07-31'', mk_date 2024 7 31),
         (''2024-08-31'', mk_date 2024 8 31), (''2024-09-30'', mk_date 2024 9 30)],
      read_csv = map_of
        [(''Nat_Gas.csv'', [(''2024-07-31'', 10), (''2024-08-31'', 10.5), (''2024-09-30'', 11)])],
      linreg_fit = (\<lambda>X y. if X = [] then None
                             else Some \<lparr>coef = [1/2, 0, 0, 0, 0, 0], intercept = 10\<rparr>)\<rparr>"





section \<open>Properties\<close>

subsection \<open>The estimator\<close>

text \<open>
  C6. Whenever the target date parses, \<open>estimate_price\<close> returns \<open>max 0 p\<close>, where \<open>p\<close> is
  the linear model applied to the six features of that date (the time index moved by the
  month difference to the reference date, the two harmonics of the day of the year, the
  month); so the returned price is never negative.
\<close>

theorem estimate_price_clamped:
  assumes "to_datetime e date_str = Some target_date"
  shows "estimate_price e date_str model reference_date last_time_index =
           Inr (max 0 (predict model
                  (spec_features
                     (last_time_index + ((year target_date - year reference_date) * 12
                                           + (month target_date - month reference_date)))
                     (dayofyear target_date) (month target_date))))
         \<and> (\<forall>p. estimate_price e date_str model reference_date last_time_index = Inr p
                \<longrightarrow> 0 \<le> p)"
  using assms by (auto simp: estimate_price_def spec_features_def Let_def)

text \<open>A model whose raw prediction at 2024-06-15 is negative; the estimate is 0.\<close>

theorem estimate_price_clamped_witness:
  "to_datetime sample_env ''2024-06-15'' = Some (mk_date 2024 6 15)
   \<and> predict \<lparr>coef = [1, 0, 0, 0, 0, 0], intercept = - 20\<rparr>
        (spec_features (2 + ((2024 - 2024) * 12 + (6 - 9))) (dayofyear (mk_date 2024 6 15)) 6) < 0
   \<and> estimate_price sample_env ''2024-06-15'' \<lparr>coef = [1, 0, 0, 0, 0, 0], intercept = - 20\<rparr>
        (mk_date 2024 9 30) 2 = Inr 0"
proof -
  have h: "to_datetime sample_env ''2024-06-15'' = Some (mk_date 2024 6 15)"
    by (simp add: sample_env_def)
  have p: "predict \<lparr>coef = [1, 0, 0, 0, 0, 0], intercept = - 20\<rparr>
        (spec_features (2 + ((2024 - 2024) * 12 + (6 - 9))) (dayofyear (mk_date 2024 6 15)) 6) < 0"
    by (simp add: predict_def spec_features_def)
  from estimate_price_clamped [OF h, of "\<lparr>coef = [1, 0, 0, 0, 0, 0], intercept = - 20\<rparr>"
      "mk_date 2024 9 30" 2] p h
  show ?thesis by (simp add: mk_date_def)
qed

subsection \<open>Validation, loops and the shape of a call\<close>






























lemma sample_load_model:
  "load_model sample_env ''Nat_Gas.csv'' =
     Inr (\<lparr>coef = [1/2, 0, 0, 0, 0, 0], intercept = 10\<rparr>, mk_date 2024 9 30, 2)"
  by (simp add: load_model_def load_price_data_def build_price_model_def sample_env_def
      enumerate_eq_zip upt_rec)

subsection \<open>Continuity at the reference date\<close>

lemma load_price_data_rows:
  assumes "load_price_data e csv_file = Inr df"
  shows "\<forall>i<length df. TimeIndex (df ! i) = int i
           \<and> Month (df ! i) = month (Dates (df ! i))
           \<and> Year (df ! i) = year (Dates (df ! i))
           \<and> DayOfYear (df ! i) = dayofyear (Dates (df ! i))"
  using assms
  by (auto simp: load_price_data_def nth_enumerate_eq split: option.splits)

lemma load_model_InrD:
  assumes "load_model e csv_file = Inr (m, ref, lti)"
  obtains df where "load_price_data e csv_file = Inr df" "build_price_model e df = Inr m"
    "df \<noteq> []" "ref = Dates (last df)" "lti = TimeIndex (last df)"
  using assms by (auto simp: load_model_def split: sum.splits if_splits)

text \<open>
  C8. For the estimator fitted from a price file (the model, the date of the last
  observation as reference date, its time index as reference time index), the estimate
  at a date string that parses to the reference date is the model applied to the last
  row of the design matrix, clamped at 0: the month difference is 0, so the time index
  is the reference one, and the day of the year and the month are those of the last
  observation.
\<close>

theorem estimate_at_reference_date:
  assumes lm: "load_model e csv_file = Inr (m, ref, lti)"
    and d: "to_datetime e date_str = Some ref"
  shows "\<exists>df. load_price_data e csv_file = Inr df \<and> df \<noteq> []
           \<and> ref = Dates (last df) \<and> lti = TimeIndex (last df)
           \<and> lti = int (length df) - 1
           \<and> Month (last df) = month ref \<and> DayOfYear (last df) = dayofyear ref
           \<and> last (map design_row df) = spec_features lti (dayofyear ref) (month ref)
           \<and> estimate_price e date_str m ref lti
                = Inr (max 0 (predict m (last (map design_row df))))"
proof -
  from lm obtain df where df: "load_price_data e csv_file = Inr df"
    and ne: "df \<noteq> []" and ref: "ref = Dates (last df)" and lti: "lti = TimeIndex (last df)"
    by (rule load_model_InrD)
  from ne have lst: "last df = df ! (length df - 1)" "length df - 1 < length df"
    by (simp_all add: last_conv_nth)
  with load_price_data_rows [OF df] have
    row: "TimeIndex (last df) = int (length df - 1)"
      "Month (last df) = month (Dates (last df))"
      "DayOfYear (last df) = dayofyear (Dates (last df))"
    by simp_all
  from ne have len: "int (length df - 1) = int (length df) - 1"
    by (cases df) simp_all
  have dr: "last (map design_row df) = spec_features lti (dayofyear ref) (month ref)"
    using ne row by (simp add: last_map design_row_def spec_features_def ref lti)
  have "estimate_price e date_str m ref lti
          = Inr (max 0 (predict m (spec_features lti (dayofyear ref) (month ref))))"
    by (simp add: estimate_price_def d spec_features_def Let_def)
  with dr df ne ref lti row len show ?thesis by simp
qed

theorem estimate_at_reference_date_witness:
  "load_model sample_env ''Nat_Gas.csv'' =
     Inr (\<lparr>coef = [1/2, 0, 0, 0, 0, 0], intercept = 10\<rparr>, mk_date 2024 9 30, 2)
   \<and> to_datetime sample_env ''2024-09-30'' = Some (mk_date 2024 9 30)
   \<and> estimate_price sample_env ''2024-09-30'' \<lparr>coef = [1/2, 0, 0, 0, 0, 0], intercept = 10\<rparr>
        (mk_date 2024 9 30) 2 = Inr 11"
proof -
  have d: "to_datetime sample_env ''2024-09-30'' = Some (mk_date 2024 9 30)"
    by (simp add: sample_env_def)
  from estimate_at_reference_date [OF sample_load_model d] obtain df where
    "last (map design_row df) = spec_features 2 (dayofyear (mk_date 2024 9 30))
                                  (month (mk_date 2024 9 30))"
    "estimate_price sample_env ''2024-09-30'' \<lparr>coef = [1/2, 0, 0, 0, 0, 0], intercept = 10\<rparr>
        (mk_date 2024 9 30) 2
       = Inr (max 0 (predict \<lparr>coef = [1/2, 0, 0, 0, 0, 0], intercept = 10\<rparr>
                       (last (map design_row df))))"
    by blast
  then have "estimate_price sample_env ''2024-09-30''
               \<lparr>coef = [1/2, 0, 0, 0, 0, 0], intercept = 10\<rparr> (mk_date 2024 9 30) 2 = Inr 11"
    by (simp add: predict_def spec_features_def)
  with sample_load_model d show ?thesis by simp
qed

subsection \<open>Operations of the same day\<close>







end
